theory Spec2Isabelle
  imports Complex_Main "HOL-Library.AList"
begin

section \<open>JavaScript values\<close>

text \<open>
  The controller \<^verbatim>\<open>backend/controllers/eventController.js\<close> works on request bodies and
  on database documents, both of which are JavaScript objects. A value is one of the
  JSON shapes plus \<^verbatim>\<open>undefined\<close> (what reading an absent property gives). Numbers are
  the finite numbers a JSON body can carry, as rationals: the controller only tests them
  for truthiness and copies them. Dates are numbers too (milliseconds since the epoch),
  and an ObjectId is the string of its hexadecimal text.
\<close>

datatype jsval =
    JUndefined
  | JNull
  | JBool bool
  | JNum rat
  | JStr string
  | JObj "(string \<times> jsval) list"

type_synonym obj = "(string \<times> jsval) list"

text \<open>\<^verbatim>\<open>o.k\<close> on an object: the value of the property, \<^verbatim>\<open>undefined\<close> when absent.\<close>

definition getField :: "obj \<Rightarrow> string \<Rightarrow> jsval" where
  "getField ob k = (case map_of ob k of None \<Rightarrow> JUndefined | Some v \<Rightarrow> v)"

text \<open>\<^verbatim>\<open>o.k = v\<close>.\<close>

definition setField :: "obj \<Rightarrow> string \<Rightarrow> jsval \<Rightarrow> obj" where
  "setField ob k v = AList.update k v ob"

text \<open>The falsy values are \<^verbatim>\<open>undefined\<close>, \<^verbatim>\<open>null\<close>, \<^verbatim>\<open>false\<close>, \<^verbatim>\<open>0\<close> and \<^verbatim>\<open>""\<close>.\<close>

fun truthy :: "jsval \<Rightarrow> bool" where
  "truthy JUndefined = False"
| "truthy JNull = False"
| "truthy (JBool b) = b"
| "truthy (JNum r) = (r \<noteq> 0)"
| "truthy (JStr s) = (s \<noteq> [])"
| "truthy (JObj ob) = True"

text \<open>\<^verbatim>\<open>a || b\<close>.\<close>

definition js_or :: "jsval \<Rightarrow> jsval \<Rightarrow> jsval" where
  "js_or a b = (if truthy a then a else b)"

section \<open>Errors and responses\<close>

text \<open>
  \<^verbatim>\<open>ErrorResponse(message, statusCode)\<close> is what the handlers throw themselves.
  \<open>ValidationError\<close> is what the persistence layer throws when a schema rejects a
  document or an update, \<open>TypeError\<close> what the JavaScript runtime throws on a property
  or method access on \<^verbatim>\<open>undefined\<close> or \<^verbatim>\<open>null\<close>.
\<close>

datatype error =
    ErrorResponse string nat
  | ValidationError
  | TypeError

text \<open>\<^verbatim>\<open>v.k\<close> on any value.\<close>

fun member :: "jsval \<Rightarrow> string \<Rightarrow> error + jsval" where
  "member JUndefined k = Inl TypeError"
| "member JNull k = Inl TypeError"
| "member (JObj ob) k = Inr (getField ob k)"
| "member v k = Inr JUndefined"

record document =
  doc_id :: string
  doc_fields :: obj

datatype payload =
    PEvent document
  | PEvents "document list"
  | PEmpty
  | PNull

record response =
  status :: nat
  success :: bool
  count :: "nat option"
  data :: payload

text \<open>The Identity Context: \<^verbatim>\<open>req.user.id\<close> and \<^verbatim>\<open>req.user.role\<close>.\<close>

record user =
  user_id :: string
  role :: string

section \<open>The persistence layer\<close>

text \<open>
  Three collections of documents, in insertion order.
\<close>

record store =
  events :: "document list"
  geofences :: "document list"
  users :: "document list"

text \<open>
  Modelled from the spec: the schemas \<^verbatim>\<open>models/Event.js\<close> and \<^verbatim>\<open>models/Geofence.js\<close>
  are not part of the sources. A schema is taken as the predicate that says which
  documents (on create) and which updates (with \<^verbatim>\<open>runValidators\<close>) it accepts; an
  accepted document is stored with the values it was given. Two things are left to the
  platform: \<open>numToString\<close> is the runtime's conversion of a number to text, and
  \<open>applyOperators\<close> is what the database does with an update document that uses
  update operators or dotted paths.
\<close>

record adapter =
  numToString :: "rat \<Rightarrow> string"
  eventValid :: "obj \<Rightarrow> bool"
  eventUpdateValid :: "obj \<Rightarrow> bool"
  geofenceValid :: "obj \<Rightarrow> bool"
  geofenceUpdateValid :: "obj \<Rightarrow> bool"
  applyOperators :: "obj \<Rightarrow> obj \<Rightarrow> obj"

text \<open>\<^verbatim>\<open>v.toString()\<close>: a method call, so it throws on \<^verbatim>\<open>undefined\<close> and \<^verbatim>\<open>null\<close>.\<close>

fun toString :: "adapter \<Rightarrow> jsval \<Rightarrow> error + string" where
  "toString ad JUndefined = Inl TypeError"
| "toString ad JNull = Inl TypeError"
| "toString ad (JBool b) = Inr (if b then ''true'' else ''false'')"
| "toString ad (JNum r) = Inr (numToString ad r)"
| "toString ad (JStr s) = Inr s"
| "toString ad (JObj ob) = Inr ''[object Object]''"

text \<open>A value inside a template literal: \<^verbatim>\<open>`${v}`\<close>.\<close>

fun template :: "adapter \<Rightarrow> jsval \<Rightarrow> string" where
  "template ad JUndefined = ''undefined''"
| "template ad JNull = ''null''"
| "template ad (JBool b) = (if b then ''true'' else ''false'')"
| "template ad (JNum r) = numToString ad r"
| "template ad (JStr s) = s"
| "template ad (JObj ob) = ''[object Object]''"

text \<open>\<^verbatim>\<open>Model.findById(id)\<close>: the document with that \<^verbatim>\<open>_id\<close>, or \<^verbatim>\<open>null\<close>.\<close>

definition findById :: "document list \<Rightarrow> string \<Rightarrow> document option" where
  "findById ds i = find (\<lambda>d. doc_id d = i) ds"

text \<open>The first element that satisfies \<open>P\<close> is replaced, or removed.\<close>

fun updateFirst :: "('a \<Rightarrow> bool) \<Rightarrow> ('a \<Rightarrow> 'a) \<Rightarrow> 'a list \<Rightarrow> 'a list" where
  "updateFirst P f [] = []"
| "updateFirst P f (x # xs) = (if P x then f x # xs else x # updateFirst P f xs)"

fun deleteFirst :: "('a \<Rightarrow> bool) \<Rightarrow> 'a list \<Rightarrow> 'a list" where
  "deleteFirst P [] = []"
| "deleteFirst P (x # xs) = (if P x then xs else x # deleteFirst P xs)"

text \<open>
  An update document \<^verbatim>\<open>{k1: v1, ...}\<close> whose keys are plain top-level paths (no
  \<^verbatim>\<open>$\<close> operator, no dotted path) is applied as \<^verbatim>\<open>$set\<close>: each path of the update
  replaces the document's value at that path. Any other update document is left to
  the database.
\<close>

definition plainKey :: "string \<Rightarrow> bool" where
  "plainKey k = ((case k of [] \<Rightarrow> True | c # cs \<Rightarrow> c \<noteq> CHR ''$'') \<and> CHR ''.'' \<notin> set k)"

definition plainUpdate :: "obj \<Rightarrow> bool" where
  "plainUpdate upd = list_all plainKey (map fst upd)"

definition applySet :: "adapter \<Rightarrow> obj \<Rightarrow> document \<Rightarrow> document" where
  "applySet ad upd d =
     d\<lparr>doc_fields := (if plainUpdate upd then AList.merge (doc_fields d) upd
                        else applyOperators ad upd (doc_fields d))\<rparr>"

text \<open>
  Modelled from the spec: the Event schema \<^verbatim>\<open>models/Event.js\<close> is not part of the
  sources; the spec gives \<^verbatim>\<open>status\<close> the default \<^verbatim>\<open>"upcoming"\<close>.
\<close>

definition eventDefaults :: "obj \<Rightarrow> obj" where
  "eventDefaults ob =
     (if map_of ob ''status'' = None then ob @ [(''status'', JStr ''upcoming'')] else ob)"

text \<open>
  \<^verbatim>\<open>Event.create(body)\<close>. The \<^verbatim>\<open>_id\<close> is generated by the driver; it is an input
  here, and the theorems that need it to be new say so.
\<close>

definition Event_create ::
  "adapter \<Rightarrow> string \<Rightarrow> obj \<Rightarrow> store \<Rightarrow> (error + document) \<times> store" where
  "Event_create ad newId body s =
     (if eventValid ad body then
        (let d = \<lparr>doc_id = newId, doc_fields = eventDefaults body\<rparr>
         in (Inr d, s\<lparr>events := events s @ [d]\<rparr>))
      else (Inl ValidationError, s))"

text \<open>\<^verbatim>\<open>Geofence.create(ob)\<close>.\<close>

definition Geofence_create ::
  "adapter \<Rightarrow> string \<Rightarrow> obj \<Rightarrow> store \<Rightarrow> (error + document) \<times> store" where
  "Geofence_create ad newId ob s =
     (if geofenceValid ad ob then
        (let d = \<lparr>doc_id = newId, doc_fields = ob\<rparr>
         in (Inr d, s\<lparr>geofences := geofences s @ [d]\<rparr>))
      else (Inl ValidationError, s))"

text \<open>
  \<^verbatim>\<open>Event.findByIdAndUpdate(id, body, {new: true, runValidators: true})\<close>: the
  updated document, or \<^verbatim>\<open>null\<close> when there is none with that id.
\<close>

definition Event_findByIdAndUpdate ::
  "adapter \<Rightarrow> string \<Rightarrow> obj \<Rightarrow> store \<Rightarrow> (error + document option) \<times> store" where
  "Event_findByIdAndUpdate ad i body s =
     (if eventUpdateValid ad body then
        (let es = updateFirst (\<lambda>d. doc_id d = i) (applySet ad body) (events s)
         in (Inr (findById es i), s\<lparr>events := es\<rparr>))
      else (Inl ValidationError, s))"

text \<open>The filter \<^verbatim>\<open>{ event: id }\<close> on the Geofence collection.\<close>

definition forEvent :: "string \<Rightarrow> document \<Rightarrow> bool" where
  "forEvent i g = (getField (doc_fields g) ''event'' = JStr i)"

text \<open>
  \<^verbatim>\<open>Geofence.findOneAndUpdate({event: id}, upd, {new: true, runValidators: true})\<close>:
  the first matching document is updated; nothing happens when there is none.
\<close>

definition Geofence_findOneAndUpdate ::
  "adapter \<Rightarrow> string \<Rightarrow> obj \<Rightarrow> store \<Rightarrow> (error + document option) \<times> store" where
  "Geofence_findOneAndUpdate ad i upd s =
     (if geofenceUpdateValid ad upd then
        (let gs = updateFirst (forEvent i) (applySet ad upd) (geofences s)
         in (Inr (map_option (applySet ad upd) (find (forEvent i) (geofences s))),
             s\<lparr>geofences := gs\<rparr>))
      else (Inl ValidationError, s))"

text \<open>\<^verbatim>\<open>Geofence.findOneAndDelete({event: id})\<close>.\<close>

definition Geofence_findOneAndDelete :: "string \<Rightarrow> store \<Rightarrow> store" where
  "Geofence_findOneAndDelete i s = s\<lparr>geofences := deleteFirst (forEvent i) (geofences s)\<rparr>"

text \<open>\<^verbatim>\<open>event.deleteOne()\<close>: removes the document with the event's \<^verbatim>\<open>_id\<close>.\<close>

definition deleteOne :: "document \<Rightarrow> store \<Rightarrow> store" where
  "deleteOne event s = s\<lparr>events := deleteFirst (\<lambda>d. doc_id d = doc_id event) (events s)\<rparr>"

section \<open>The handlers\<close>

text \<open>
  Every handler takes the store and returns what it sends (an error it throws, or the
  response) together with the store it leaves behind: a handler that throws after a
  write leaves the write in place.
\<close>

subsection \<open>createEvent\<close>

definition createEvent ::
  "adapter \<Rightarrow> string \<Rightarrow> string \<Rightarrow> user \<Rightarrow> obj \<Rightarrow> store \<Rightarrow> (error + response) \<times> store" where
  "createEvent ad newEventId newGeofenceId usr body0 s =
     (let body = setField body0 ''organizer'' (JStr (user_id usr)) in
      if role usr \<noteq> ''ngo'' \<and> role usr \<noteq> ''admin'' then
        (Inl (ErrorResponse
               (''User with role '' @ role usr @ '' is not authorized to create an event'')
               403), s)
      else
        (case Event_create ad newEventId body s of
           (Inl e, s1) \<Rightarrow> (Inl e, s1)
         | (Inr event, s1) \<Rightarrow>
             (case member (getField (doc_fields event) ''coordinates'') ''latitude'' of
                Inl e \<Rightarrow> (Inl e, s1)
              | Inr lat \<Rightarrow>
                  (case member (getField (doc_fields event) ''coordinates'') ''longitude'' of
                     Inl e \<Rightarrow> (Inl e, s1)
                   | Inr lng \<Rightarrow>
                       (case Geofence_create ad newGeofenceId
                          [(''event'', JStr (doc_id event)),
                           (''radius'', js_or (getField body ''geofenceRadius'') (JNum 500)),
                           (''center'', JObj [(''latitude'', lat), (''longitude'', lng)]),
                           (''trafficImpact'',
                              JObj [(''level'',
                                       js_or (getField body ''trafficImpact'') (JStr ''low'')),
                                    (''description'',
                                       JStr (''Traffic impact for '' @
                                             template ad (getField (doc_fields event) ''title'')))]),
                           (''createdBy'', JStr (user_id usr))] s1 of
                          (Inl e, s2) \<Rightarrow> (Inl e, s2)
                        | (Inr g, s2) \<Rightarrow>
                            (Inr \<lparr>status = 201, success = True, count = None,
                                  data = PEvent event\<rparr>, s2))))))"

subsection \<open>updateEvent\<close>

text \<open>
  The caller may change the event when the text of the event's organizer is the
  caller's id, or the caller is an admin. The left operand is evaluated first, so an
  event without an organizer makes the test throw.
\<close>

definition updateEvent ::
  "adapter \<Rightarrow> string \<Rightarrow> user \<Rightarrow> obj \<Rightarrow> store \<Rightarrow> (error + response) \<times> store" where
  "updateEvent ad i usr body s =
     (case findById (events s) i of
        None \<Rightarrow> (Inl (ErrorResponse (''Event not found with id of '' @ i) 404), s)
      | Some event0 \<Rightarrow>
          (case toString ad (getField (doc_fields event0) ''organizer'') of
             Inl e \<Rightarrow> (Inl e, s)
           | Inr org \<Rightarrow>
               if org \<noteq> user_id usr \<and> role usr \<noteq> ''admin'' then
                 (Inl (ErrorResponse
                        (''User '' @ user_id usr @ '' is not authorized to update this event'')
                        403), s)
               else
                 (case Event_findByIdAndUpdate ad i body s of
                    (Inl e, s1) \<Rightarrow> (Inl e, s1)
                  | (Inr event, s1) \<Rightarrow>
                      if truthy (getField body ''coordinates'') then
                        (case event of
                           None \<Rightarrow> (Inl TypeError, s1)
                         | Some ev \<Rightarrow>
                             (case member (getField body ''coordinates'') ''latitude'' of
                                Inl e \<Rightarrow> (Inl e, s1)
                              | Inr lat \<Rightarrow>
                                  (case member (getField body ''coordinates'') ''longitude'' of
                                     Inl e \<Rightarrow> (Inl e, s1)
                                   | Inr lng \<Rightarrow>
                                       (case Geofence_findOneAndUpdate ad (doc_id ev)
                                          [(''center'',
                                              JObj [(''latitude'', lat), (''longitude'', lng)]),
                                           (''radius'',
                                              js_or (getField body ''geofenceRadius'') (JNum 500)),
                                           (''trafficImpact'',
                                              JObj [(''level'',
                                                       js_or (getField body ''trafficImpact'')
                                                         (JStr ''low''))])] s1 of
                                          (Inl e, s2) \<Rightarrow> (Inl e, s2)
                                        | (Inr g, s2) \<Rightarrow>
                                            (Inr \<lparr>status = 200, success = True, count = None,
                                                  data = PEvent ev\<rparr>, s2)))))
                      else
                        (Inr \<lparr>status = 200, success = True, count = None,
                              data = (case event of None \<Rightarrow> PNull | Some ev \<Rightarrow> PEvent ev)\<rparr>,
                         s1))))"

subsection \<open>deleteEvent\<close>

definition deleteEvent ::
  "adapter \<Rightarrow> string \<Rightarrow> user \<Rightarrow> store \<Rightarrow> (error + response) \<times> store" where
  "deleteEvent ad i usr s =
     (case findById (events s) i of
        None \<Rightarrow> (Inl (ErrorResponse (''Event not found with id of '' @ i) 404), s)
      | Some event \<Rightarrow>
          (case toString ad (getField (doc_fields event) ''organizer'') of
             Inl e \<Rightarrow> (Inl e, s)
           | Inr org \<Rightarrow>
               if org \<noteq> user_id usr \<and> role usr \<noteq> ''admin'' then
                 (Inl (ErrorResponse
                        (''User '' @ user_id usr @ '' is not authorized to delete this event'')
                        403), s)
               else
                 (let s1 = Geofence_findOneAndDelete (doc_id event) s;
                      s2 = deleteOne event s1
                  in (Inr \<lparr>status = 200, success = True, count = None, data = PEmpty\<rparr>,
                      s2))))"

subsection \<open>getUpcomingEvents\<close>

text \<open>
  The filter \<^verbatim>\<open>{ date: { $gte: now }, status: 'upcoming' }\<close>: a document without a
  date does not match.
\<close>

definition isUpcoming :: "rat \<Rightarrow> document \<Rightarrow> bool" where
  "isUpcoming now d =
     ((case getField (doc_fields d) ''date'' of JNum t \<Rightarrow> now \<le> t | _ \<Rightarrow> False)
      \<and> getField (doc_fields d) ''status'' = JStr ''upcoming'')"

text \<open>The sort key of \<^verbatim>\<open>.sort({ date: 1 })\<close> on documents that have a date.\<close>

definition dateOf :: "document \<Rightarrow> rat" where
  "dateOf d = (case getField (doc_fields d) ''date'' of JNum t \<Rightarrow> t | _ \<Rightarrow> 0)"

text \<open>
  \<^verbatim>\<open>.populate({ path, select })\<close>: a reference is replaced by the selected fields of
  the user it names (and the user's \<^verbatim>\<open>_id\<close>), by \<^verbatim>\<open>null\<close> when there is no such user.
\<close>

definition populate :: "string \<Rightarrow> string list \<Rightarrow> document list \<Rightarrow> document \<Rightarrow> document" where
  "populate path sel us d =
     (case map_of (doc_fields d) path of
        Some (JStr u) \<Rightarrow>
          d\<lparr>doc_fields := setField (doc_fields d) path
               (case findById us u of
                  None \<Rightarrow> JNull
                | Some ud \<Rightarrow>
                    JObj ((''_id'', JStr (doc_id ud)) #
                          filter (\<lambda>kv. fst kv \<in> set sel) (doc_fields ud)))\<rparr>
      | _ \<Rightarrow> d)"

text \<open>\<open>now\<close> is the value of \<^verbatim>\<open>new Date()\<close> when the query is built.\<close>

definition getUpcomingEvents :: "rat \<Rightarrow> store \<Rightarrow> (error + response) \<times> store" where
  "getUpcomingEvents now s =
     (let found = map (populate ''organizer'' [''name''] (users s))
                    (take 10 (sort_key dateOf (filter (isUpcoming now) (events s))))
      in (Inr \<lparr>status = 200, success = True, count = Some (length found),
               data = PEvents found\<rparr>, s))"

section \<open>Reading documents\<close>

text \<open>The fields of a stored Event and of a stored Geofence that the properties speak of.\<close>

definition organizerOf :: "document \<Rightarrow> jsval" where
  "organizerOf d = getField (doc_fields d) ''organizer''"

definition coordinateOf :: "document \<Rightarrow> string \<Rightarrow> error + jsval" where
  "coordinateOf d k = member (getField (doc_fields d) ''coordinates'') k"

definition radiusOf :: "document \<Rightarrow> jsval" where
  "radiusOf g = getField (doc_fields g) ''radius''"

definition centerOf :: "document \<Rightarrow> string \<Rightarrow> error + jsval" where
  "centerOf g k = member (getField (doc_fields g) ''center'') k"

definition levelOf :: "document \<Rightarrow> error + jsval" where
  "levelOf g = member (getField (doc_fields g) ''trafficImpact'') ''level''"

text \<open>The update that \<open>updateEvent\<close> passes to \<^verbatim>\<open>Geofence.findOneAndUpdate\<close>.\<close>

definition geofenceChange :: "obj \<Rightarrow> jsval \<Rightarrow> jsval \<Rightarrow> obj" where
  "geofenceChange body lat lng =
     [(''center'', JObj [(''latitude'', lat), (''longitude'', lng)]),
      (''radius'', js_or (getField body ''geofenceRadius'') (JNum 500)),
      (''trafficImpact'',
         JObj [(''level'', js_or (getField body ''trafficImpact'') (JStr ''low''))])]"

section \<open>Sample data\<close>

definition acceptAll :: adapter where
  "acceptAll = \<lparr>numToString = (\<lambda>r. ''0''), eventValid = (\<lambda>b. True),
     eventUpdateValid = (\<lambda>b. True), geofenceValid = (\<lambda>b. True),
     geofenceUpdateValid = (\<lambda>b. True), applyOperators = (\<lambda>u ob. ob)\<rparr>"

definition emptyStore :: store where
  "emptyStore = \<lparr>events = [], geofences = [], users = []\<rparr>"

definition alice :: user where
  "alice = \<lparr>user_id = ''a1'', role = ''ngo''\<rparr>"

definition bob :: user where
  "bob = \<lparr>user_id = ''b2'', role = ''user''\<rparr>"

definition root :: user where
  "root = \<lparr>user_id = ''r0'', role = ''admin''\<rparr>"

definition fairBody :: obj where
  "fairBody = [(''title'', JStr ''Fair''), (''organizer'', JStr ''zz''),
     (''coordinates'', JObj [(''latitude'', JNum 40), (''longitude'', JNum (-75))]),
     (''geofenceRadius'', JNum 800), (''trafficImpact'', JStr ''high'')]"

definition zeroBody :: obj where
  "zeroBody = [(''title'', JStr ''Fair''),
     (''coordinates'', JObj [(''latitude'', JNum 40), (''longitude'', JNum (-75))]),
     (''geofenceRadius'', JNum 0), (''trafficImpact'', JStr [])]"

text \<open>The store after \<open>alice\<close> has created \<open>fairBody\<close> in the empty store.\<close>

definition fairEvent :: document where
  "fairEvent = \<lparr>doc_id = ''e1'', doc_fields =
     [(''title'', JStr ''Fair''), (''organizer'', JStr ''a1''),
      (''coordinates'', JObj [(''latitude'', JNum 40), (''longitude'', JNum (-75))]),
      (''geofenceRadius'', JNum 800), (''trafficImpact'', JStr ''high''),
      (''status'', JStr ''upcoming'')]\<rparr>"

definition fairGeofence :: document where
  "fairGeofence = \<lparr>doc_id = ''g1'', doc_fields =
     [(''event'', JStr ''e1''), (''radius'', JNum 800),
      (''center'', JObj [(''latitude'', JNum 40), (''longitude'', JNum (-75))]),
      (''trafficImpact'',
         JObj [(''level'', JStr ''high''), (''description'', JStr ''Traffic impact for Fair'')]),
      (''createdBy'', JStr ''a1'')]\<rparr>"

definition fairStore :: store where
  "fairStore = \<lparr>events = [fairEvent], geofences = [fairGeofence], users = []\<rparr>"

text \<open>An Event without a Geofence.\<close>

definition loneStore :: store where
  "loneStore = \<lparr>events = [fairEvent], geofences = [], users = []\<rparr>"

text \<open>Update bodies: new coordinates only, new coordinates with falsy extras, a new organizer.\<close>

definition moveBody :: obj where
  "moveBody = [(''coordinates'', JObj [(''latitude'', JNum 41), (''longitude'', JNum (-74))])]"

definition moveZeroBody :: obj where
  "moveZeroBody =
     [(''coordinates'', JObj [(''latitude'', JNum 41), (''longitude'', JNum (-74))]),
      (''geofenceRadius'', JNum 0), (''trafficImpact'', JStr [])]"

definition takeoverBody :: obj where
  "takeoverBody = [(''organizer'', JStr ''m9'')]"

text \<open>Four events: two upcoming ones out of date order, a past one and a cancelled one.\<close>

definition agendaStore :: store where
  "agendaStore = \<lparr>events =
     [\<lparr>doc_id = ''e1'', doc_fields = [(''date'', JNum 300), (''status'', JStr ''upcoming'')]\<rparr>,
      \<lparr>doc_id = ''e2'', doc_fields = [(''date'', JNum 100), (''status'', JStr ''upcoming'')]\<rparr>,
      \<lparr>doc_id = ''e3'', doc_fields = [(''date'', JNum 50), (''status'', JStr ''upcoming'')]\<rparr>,
      \<lparr>doc_id = ''e4'', doc_fields = [(''date'', JNum 200), (''status'', JStr ''cancelled'')]\<rparr>],
     geofences = [], users = []\<rparr>"

text \<open>
  An Update by the organizer that sets the organizer to \<^verbatim>\<open>null\<close>, and the store it
  leaves when the schema accepts it: the Event has no organizer any more.
\<close>

definition nullBody :: obj where
  "nullBody = [(''organizer'', JNull)]"

definition orphanEvent :: document where
  "orphanEvent = \<lparr>doc_id = ''e1'', doc_fields =
     [(''title'', JStr ''Fair''), (''organizer'', JNull),
      (''coordinates'', JObj [(''latitude'', JNum 40), (''longitude'', JNum (-75))]),
      (''geofenceRadius'', JNum 800), (''trafficImpact'', JStr ''high''),
      (''status'', JStr ''upcoming'')]\<rparr>"

definition orphanStore :: store where
  "orphanStore = \<lparr>events = [orphanEvent], geofences = [fairGeofence], users = []\<rparr>"

section \<open>Basic facts\<close>

lemmas sample_defs = acceptAll_def emptyStore_def alice_def bob_def root_def fairBody_def
  zeroBody_def fairEvent_def fairGeofence_def fairStore_def loneStore_def moveBody_def
  moveZeroBody_def takeoverBody_def agendaStore_def nullBody_def orphanEvent_def
  orphanStore_def

lemmas create_defs = createEvent_def Event_create_def Geofence_create_def eventDefaults_def
  setField_def getField_def js_or_def Let_def

lemma getField_setField_same: "getField (setField ob k v) k = v"
  by (simp add: getField_def setField_def update_conv')

lemma getField_setField_other: "k' \<noteq> k \<Longrightarrow> getField (setField ob k v) k' = getField ob k'"
  by (simp add: getField_def setField_def update_conv')

lemma getField_eventDefaults:
  "k \<noteq> ''status'' \<Longrightarrow> getField (eventDefaults ob) k = getField ob k"
  by (simp add: getField_def eventDefaults_def map_add_def split: option.splits)

lemma getField_merge:
  "getField (AList.merge ob upd) k =
     (case map_of upd k of None \<Rightarrow> getField ob k | Some v \<Rightarrow> v)"
  by (simp add: getField_def merge_conv' map_add_def split: option.splits)

text \<open>What a Create that succeeds has returned and written.\<close>

lemma createEvent_success:
  assumes "createEvent ad eid gid usr body s = (Inr r, s')"
  shows "\<exists>lat lng.
     member (getField body ''coordinates'') ''latitude'' = Inr lat \<and>
     member (getField body ''coordinates'') ''longitude'' = Inr lng \<and>
     r = \<lparr>status = 201, success = True, count = None,
          data = PEvent \<lparr>doc_id = eid,
                   doc_fields = eventDefaults (setField body ''organizer'' (JStr (user_id usr)))\<rparr>\<rparr> \<and>
     s' = s\<lparr>events := events s @ [\<lparr>doc_id = eid,
                   doc_fields = eventDefaults (setField body ''organizer'' (JStr (user_id usr)))\<rparr>],
            geofences := geofences s @ [\<lparr>doc_id = gid, doc_fields =
               [(''event'', JStr eid),
                (''radius'', js_or (getField body ''geofenceRadius'') (JNum 500)),
                (''center'', JObj [(''latitude'', lat), (''longitude'', lng)]),
                (''trafficImpact'',
                   JObj [(''level'', js_or (getField body ''trafficImpact'') (JStr ''low'')),
                         (''description'',
                            JStr (''Traffic impact for '' @ template ad (getField body ''title'')))]),
                (''createdBy'', JStr (user_id usr))]\<rparr>]\<rparr>"
  using assms
  by (auto simp: createEvent_def Event_create_def Geofence_create_def Let_def
        getField_eventDefaults getField_setField_other
      split: if_splits sum.splits prod.splits)

lemma fair_created_store:
  "createEvent acceptAll ''e1'' ''g1'' alice fairBody emptyStore
     = (Inr \<lparr>status = 201, success = True, count = None, data = PEvent fairEvent\<rparr>,
        fairStore)"
  by (simp add: sample_defs create_defs)

lemma fair_created:
  "\<exists>r s'. createEvent acceptAll ''e1'' ''g1'' alice fairBody emptyStore = (Inr r, s')"
  by (simp add: fair_created_store)

section \<open>Create: authorization\<close>

text \<open>
  C1. A Create request by a caller whose role is neither "ngo" nor "admin" fails with
  a Forbidden (403) error, and both stores are left as they were: no Event and no
  Geofence is persisted.
\<close>

theorem createEvent_forbidden:
  assumes "role usr \<noteq> ''ngo''" and "role usr \<noteq> ''admin''"
  shows "\<exists>msg. createEvent ad newEventId newGeofenceId usr body s
           = (Inl (ErrorResponse msg 403), s)"
  using assms by (simp add: createEvent_def)

theorem createEvent_forbidden_witness:
  "\<exists>msg. createEvent acceptAll ''e1'' ''g1'' bob [(''title'', JStr ''Fair'')] emptyStore
      = (Inl (ErrorResponse msg 403), emptyStore)"
proof -
  have "role bob \<noteq> ''ngo''" and "role bob \<noteq> ''admin''"
    by (simp_all add: bob_def)
  then show ?thesis
    by (rule createEvent_forbidden)
qed

section \<open>Create: the organizer\<close>

text \<open>
  C2. When a Create request succeeds, the Event it has persisted (the one it returns,
  appended to the Event collection under the generated id) has the calling user's id
  as its organizer, whatever organizer the request body carried.
\<close>

theorem createEvent_organizer:
  assumes "createEvent ad eid gid usr body s = (Inr r, s')"
  shows "\<exists>ev. data r = PEvent ev \<and> doc_id ev = eid \<and> events s' = events s @ [ev]
           \<and> organizerOf ev = JStr (user_id usr)"
proof -
  from createEvent_success [OF assms] obtain lat lng where
    r: "r = \<lparr>status = 201, success = True, count = None,
          data = PEvent \<lparr>doc_id = eid,
                   doc_fields = eventDefaults (setField body ''organizer'' (JStr (user_id usr)))\<rparr>\<rparr>"
    and s': "events s' = events s @ [\<lparr>doc_id = eid,
                   doc_fields = eventDefaults (setField body ''organizer'' (JStr (user_id usr)))\<rparr>]"
    by auto
  have "organizerOf \<lparr>doc_id = eid,
          doc_fields = eventDefaults (setField body ''organizer'' (JStr (user_id usr)))\<rparr>
        = JStr (user_id usr)"
    by (simp add: organizerOf_def getField_eventDefaults getField_setField_same)
  with r s' show ?thesis by simp
qed

theorem createEvent_organizer_witness:
  "getField fairBody ''organizer'' = JStr ''zz'' \<and>
   map organizerOf (events (snd (createEvent acceptAll ''e1'' ''g1'' alice fairBody emptyStore)))
     = [JStr ''a1'']"
proof -
  obtain r s' where c: "createEvent acceptAll ''e1'' ''g1'' alice fairBody emptyStore = (Inr r, s')"
    using fair_created by blast
  from createEvent_organizer [OF c] obtain ev where
    "events s' = events emptyStore @ [ev]" "organizerOf ev = JStr (user_id alice)"
    by blast
  then have "map organizerOf (events s') = [JStr ''a1'']"
    by (simp add: emptyStore_def alice_def)
  moreover have "getField fairBody ''organizer'' = JStr ''zz''"
    by (simp add: fairBody_def getField_def)
  ultimately show ?thesis using c by simp
qed

section \<open>Create: the paired Geofence\<close>

text \<open>
  C4 (as amended). When a Create request succeeds and no stored Geofence refers to the
  generated Event id yet, there is exactly one Geofence whose event is the new Event's
  id. Its center has the latitude and the longitude of the Event's coordinates, its
  radius is the request's geofenceRadius when that value is truthy and 500 otherwise,
  and its trafficImpact.level is the request's trafficImpact when that value is truthy
  and "low" otherwise.
\<close>

theorem createEvent_geofence:
  assumes created: "createEvent ad eid gid usr body s = (Inr r, s')"
      and fresh: "\<forall>g \<in> set (geofences s). \<not> forEvent eid g"
  shows "\<exists>ev g lat lng.
           data r = PEvent ev \<and> doc_id ev = eid \<and> events s' = events s @ [ev] \<and>
           filter (forEvent (doc_id ev)) (geofences s') = [g] \<and>
           coordinateOf ev ''latitude'' = Inr lat \<and> centerOf g ''latitude'' = Inr lat \<and>
           coordinateOf ev ''longitude'' = Inr lng \<and> centerOf g ''longitude'' = Inr lng \<and>
           radiusOf g = (if truthy (getField body ''geofenceRadius'')
                         then getField body ''geofenceRadius'' else JNum 500) \<and>
           levelOf g = Inr (if truthy (getField body ''trafficImpact'')
                            then getField body ''trafficImpact'' else JStr ''low'')"
proof -
  let ?ev = "\<lparr>doc_id = eid,
      doc_fields = eventDefaults (setField body ''organizer'' (JStr (user_id usr)))\<rparr>"
  from createEvent_success [OF created] obtain lat lng where
    lat: "member (getField body ''coordinates'') ''latitude'' = Inr lat"
    and lng: "member (getField body ''coordinates'') ''longitude'' = Inr lng"
    and r: "data r = PEvent ?ev"
    and es: "events s' = events s @ [?ev]"
    and gs: "geofences s' = geofences s @ [\<lparr>doc_id = gid, doc_fields =
               [(''event'', JStr eid),
                (''radius'', js_or (getField body ''geofenceRadius'') (JNum 500)),
                (''center'', JObj [(''latitude'', lat), (''longitude'', lng)]),
                (''trafficImpact'',
                   JObj [(''level'', js_or (getField body ''trafficImpact'') (JStr ''low'')),
                         (''description'',
                            JStr (''Traffic impact for '' @ template ad (getField body ''title'')))]),
                (''createdBy'', JStr (user_id usr))]\<rparr>]"
      (is "_ = _ @ [?g]")
    by auto
  have old: "filter (forEvent eid) (geofences s) = []"
    using fresh by (simp add: filter_empty_conv)
  have new: "forEvent eid ?g"
    by (simp add: forEvent_def getField_def)
  have one: "filter (forEvent (doc_id ?ev)) (geofences s') = [?g]"
    using old new by (simp add: gs)
  have c1: "coordinateOf ?ev ''latitude'' = Inr lat"
    using lat by (simp add: coordinateOf_def getField_eventDefaults getField_setField_other)
  have c2: "coordinateOf ?ev ''longitude'' = Inr lng"
    using lng by (simp add: coordinateOf_def getField_eventDefaults getField_setField_other)
  have g1: "centerOf ?g ''latitude'' = Inr lat"
    by (simp add: centerOf_def getField_def)
  have g2: "centerOf ?g ''longitude'' = Inr lng"
    by (simp add: centerOf_def getField_def)
  have g3: "radiusOf ?g = (if truthy (getField body ''geofenceRadius'')
                         then getField body ''geofenceRadius'' else JNum 500)"
    by (simp add: radiusOf_def getField_def js_or_def)
  have g4: "levelOf ?g = Inr (if truthy (getField body ''trafficImpact'')
                            then getField body ''trafficImpact'' else JStr ''low'')"
    by (simp add: levelOf_def getField_def js_or_def)
  show ?thesis
    using r es one c1 c2 g1 g2 g3 g4
    by (intro exI [of _ ?ev] exI [of _ ?g] exI [of _ lat] exI [of _ lng]) simp
qed

theorem createEvent_geofence_witness:
  "map radiusOf (geofences (snd (createEvent acceptAll ''e1'' ''g1'' alice fairBody emptyStore)))
     = [JNum 800] \<and>
   map levelOf (geofences (snd (createEvent acceptAll ''e1'' ''g1'' alice fairBody emptyStore)))
     = [Inr (JStr ''high'')]"
proof -
  obtain r s' where c: "createEvent acceptAll ''e1'' ''g1'' alice fairBody emptyStore = (Inr r, s')"
    using fair_created by blast
  have f: "\<forall>g \<in> set (geofences emptyStore). \<not> forEvent ''e1'' g"
    by (simp add: emptyStore_def)
  have gs: "filter (forEvent ''e1'') (geofences s') = geofences s'"
    using createEvent_success [OF c] by (auto simp: emptyStore_def forEvent_def getField_def)
  from createEvent_geofence [OF c f] obtain ev :: document and g where
    "doc_id ev = ''e1''" "filter (forEvent (doc_id ev)) (geofences s') = [g]"
    "radiusOf g = (if truthy (getField fairBody ''geofenceRadius'')
                         then getField fairBody ''geofenceRadius'' else JNum 500)"
    "levelOf g = Inr (if truthy (getField fairBody ''trafficImpact'')
                            then getField fairBody ''trafficImpact'' else JStr ''low'')"
    by (elim exE conjE) (rule that)
  then have "map radiusOf (geofences s') = [JNum 800] \<and>
     map levelOf (geofences s') = [Inr (JStr ''high'')]"
    using gs by (simp add: fairBody_def getField_def)
  then show ?thesis using c by simp
qed

text \<open>
  The claim as first stated gave the Geofence the request's geofenceRadius whenever one
  is supplied. A supplied radius of 0 is not kept: the Create succeeds and the radius
  stored is 500.
\<close>

theorem createEvent_geofence_counterexample:
  "\<not> isl (fst (createEvent acceptAll ''e1'' ''g1'' alice zeroBody emptyStore)) \<and>
   getField zeroBody ''geofenceRadius'' = JNum 0 \<and>
   map radiusOf (geofences (snd (createEvent acceptAll ''e1'' ''g1'' alice zeroBody emptyStore)))
     = [JNum 500]"
  by (simp add: sample_defs create_defs radiusOf_def)

section \<open>Update and Delete: basic facts\<close>

lemma findById_id: "findById ds i = Some d \<Longrightarrow> doc_id d = i"
  by (auto simp: findById_def find_Some_iff)

lemma find_updateFirst:
  "find P xs = Some x \<Longrightarrow> P (f x) \<Longrightarrow> find P (updateFirst P f xs) = Some (f x)"
  by (induction xs) (auto split: if_splits)

lemma updateFirst_none: "find P xs = None \<Longrightarrow> updateFirst P f xs = xs"
  by (induction xs) (auto split: if_splits)

lemma map_updateFirst:
  "(\<And>x. x \<in> set xs \<Longrightarrow> h (f x) = h x) \<Longrightarrow> map h (updateFirst P f xs) = map h xs"
  by (induction xs) auto

lemma deleteFirst_remove1: "find P xs = Some x \<Longrightarrow> deleteFirst P xs = remove1 x xs"
proof (induction xs)
  case Nil
  then show ?case by simp
next
  case (Cons a xs)
  show ?case
  proof (cases "P a")
    case True
    with Cons.prems show ?thesis by simp
  next
    case False
    with Cons.prems have f: "find P xs = Some x" by simp
    then have "P x" by (auto simp: find_Some_iff)
    with False have "x \<noteq> a" by auto
    with False Cons.IH [OF f] show ?thesis by simp
  qed
qed


lemma doc_id_applySet: "doc_id (applySet ad upd d) = doc_id d"
  by (simp add: applySet_def)

lemma findById_updateFirst:
  "findById es i = Some ev \<Longrightarrow>
   findById (updateFirst (\<lambda>d. doc_id d = i) (applySet ad body) es) i = Some (applySet ad body ev)"
  unfolding findById_def
  by (rule find_updateFirst) (auto simp: doc_id_applySet find_Some_iff)

text \<open>What an Update that succeeds has written.\<close>

lemma updateEvent_success:
  assumes "updateEvent ad i usr body s = (Inr r, s')"
  shows "\<exists>ev0 org.
     findById (events s) i = Some ev0 \<and> toString ad (organizerOf ev0) = Inr org \<and>
     (org = user_id usr \<or> role usr = ''admin'') \<and> eventUpdateValid ad body \<and>
     r = \<lparr>status = 200, success = True, count = None, data = PEvent (applySet ad body ev0)\<rparr> \<and>
     events s' = updateFirst (\<lambda>d. doc_id d = i) (applySet ad body) (events s) \<and>
     users s' = users s \<and>
     (if truthy (getField body ''coordinates'') then
        \<exists>lat lng.
          member (getField body ''coordinates'') ''latitude'' = Inr lat \<and>
          member (getField body ''coordinates'') ''longitude'' = Inr lng \<and>
          geofences s' = updateFirst (forEvent i)
            (applySet ad (geofenceChange body lat lng)) (geofences s)
      else geofences s' = geofences s)"
proof (cases "findById (events s) i")
  case None
  with assms show ?thesis by (simp add: updateEvent_def)
next
  case (Some ev0)
  note upd = findById_updateFirst [OF Some, of ad body]
  from assms Some show ?thesis
    by (auto simp: updateEvent_def Event_findByIdAndUpdate_def Geofence_findOneAndUpdate_def
          organizerOf_def Let_def upd doc_id_applySet geofenceChange_def dest: findById_id
        split: sum.splits if_splits prod.splits option.splits)
qed


lemma plain_geofenceChange: "plainUpdate (geofenceChange body lat lng)"
  by (simp add: geofenceChange_def plainUpdate_def plainKey_def)

lemma geofenceChange_fields:
  "getField (doc_fields (applySet ad (geofenceChange body lat lng) g)) ''event''
     = getField (doc_fields g) ''event''"
  "getField (doc_fields (applySet ad (geofenceChange body lat lng) g)) ''center''
     = JObj [(''latitude'', lat), (''longitude'', lng)]"
  "getField (doc_fields (applySet ad (geofenceChange body lat lng) g)) ''radius''
     = js_or (getField body ''geofenceRadius'') (JNum 500)"
  "getField (doc_fields (applySet ad (geofenceChange body lat lng) g)) ''trafficImpact''
     = JObj [(''level'', js_or (getField body ''trafficImpact'') (JStr ''low''))]"
  by (simp_all add: applySet_def plain_geofenceChange getField_merge)
     (simp_all add: geofenceChange_def)

lemma geofenceChange_effect:
  "forEvent i (applySet ad (geofenceChange body lat lng) g) = forEvent i g"
  "centerOf (applySet ad (geofenceChange body lat lng) g) ''latitude'' = Inr lat"
  "centerOf (applySet ad (geofenceChange body lat lng) g) ''longitude'' = Inr lng"
  "radiusOf (applySet ad (geofenceChange body lat lng) g)
     = (if truthy (getField body ''geofenceRadius'')
        then getField body ''geofenceRadius'' else JNum 500)"
  "levelOf (applySet ad (geofenceChange body lat lng) g)
     = Inr (if truthy (getField body ''trafficImpact'')
            then getField body ''trafficImpact'' else JStr ''low'')"
  by (simp_all add: forEvent_def centerOf_def radiusOf_def levelOf_def geofenceChange_fields
        js_or_def)
     (simp_all add: getField_def)


lemmas update_defs = updateEvent_def Event_findByIdAndUpdate_def Geofence_findOneAndUpdate_def
  findById_def applySet_def plainUpdate_def plainKey_def forEvent_def organizerOf_def
  getField_def js_or_def Let_def

lemmas delete_defs = deleteEvent_def Geofence_findOneAndDelete_def deleteOne_def
  findById_def forEvent_def organizerOf_def getField_def Let_def

lemma updateEvent_coords_ok:
  assumes found: "findById (events s) i = Some ev0"
      and org: "toString ad (organizerOf ev0) = Inr org"
      and auth: "org = user_id usr \<or> role usr = ''admin''"
      and valid: "eventUpdateValid ad body"
      and coords: "truthy (getField body ''coordinates'')"
      and lat: "member (getField body ''coordinates'') ''latitude'' = Inr lat"
      and lng: "member (getField body ''coordinates'') ''longitude'' = Inr lng"
      and gvalid: "geofenceUpdateValid ad (geofenceChange body lat lng)"
  shows "updateEvent ad i usr body s =
     (Inr \<lparr>status = 200, success = True, count = None, data = PEvent (applySet ad body ev0)\<rparr>,
      s\<lparr>events := updateFirst (\<lambda>d. doc_id d = i) (applySet ad body) (events s),
        geofences := updateFirst (forEvent i) (applySet ad (geofenceChange body lat lng))
                       (geofences s)\<rparr>)"
proof -
  note upd = findById_updateFirst [OF found, of ad body]
  have i: "doc_id ev0 = i" using found by (rule findById_id)
  from org auth show ?thesis
    using found valid coords lat lng gvalid
    by (auto simp: updateEvent_def Event_findByIdAndUpdate_def Geofence_findOneAndUpdate_def
          organizerOf_def Let_def upd doc_id_applySet i geofenceChange_def)
qed

text \<open>The handlers themselves lead to an Event without an organizer.\<close>

lemma orphan_reached:
  "updateEvent acceptAll ''e1'' alice nullBody fairStore
     = (Inr \<lparr>status = 200, success = True, count = None, data = PEvent orphanEvent\<rparr>,
        orphanStore)"
  by (simp add: sample_defs update_defs)

section \<open>Update: the paired Geofence\<close>

text \<open>
  C5 (as amended). An Update request for an existing Event that has an organizer (the
  Event's organizer is neither null nor undefined), by that organizer or an admin,
  whose body passes validation and carries truthy coordinates, succeeds. The
  paired Geofence (the first one whose event is the Event's id) then has its center at
  the new coordinates, its radius is the request's geofenceRadius when that value is
  truthy and 500 otherwise (never its prior value), and its trafficImpact.level is the
  request's trafficImpact when that value is truthy and "low" otherwise. When no
  Geofence exists for the Event, the Geofence collection is left as it was and the
  Update still succeeds.
\<close>

theorem updateEvent_geofence:
  assumes found: "findById (events s) i = Some ev0"
      and org: "toString ad (organizerOf ev0) = Inr org"
      and auth: "org = user_id usr \<or> role usr = ''admin''"
      and valid: "eventUpdateValid ad body"
      and coords: "truthy (getField body ''coordinates'')"
      and lat: "member (getField body ''coordinates'') ''latitude'' = Inr lat"
      and lng: "member (getField body ''coordinates'') ''longitude'' = Inr lng"
      and gvalid: "geofenceUpdateValid ad (geofenceChange body lat lng)"
  shows "\<exists>r s'. updateEvent ad i usr body s = (Inr r, s') \<and> status r = 200 \<and> success r \<and>
           (case find (forEvent i) (geofences s) of
              None \<Rightarrow> geofences s' = geofences s
            | Some g \<Rightarrow>
                \<exists>g'. find (forEvent i) (geofences s') = Some g' \<and> doc_id g' = doc_id g \<and>
                  centerOf g' ''latitude'' = Inr lat \<and> centerOf g' ''longitude'' = Inr lng \<and>
                  radiusOf g' = (if truthy (getField body ''geofenceRadius'')
                                 then getField body ''geofenceRadius'' else JNum 500) \<and>
                  levelOf g' = Inr (if truthy (getField body ''trafficImpact'')
                                    then getField body ''trafficImpact'' else JStr ''low''))"
proof -
  let ?f = "applySet ad (geofenceChange body lat lng)"
  let ?r = "\<lparr>status = 200, success = True, count = None,
             data = PEvent (applySet ad body ev0)\<rparr>"
  let ?s' = "s\<lparr>events := updateFirst (\<lambda>d. doc_id d = i) (applySet ad body) (events s),
        geofences := updateFirst (forEvent i) ?f (geofences s)\<rparr>"
  have run: "updateEvent ad i usr body s = (Inr ?r, ?s')"
    using assms by (rule updateEvent_coords_ok)
  have st: "status ?r = 200" "success ?r"
    by simp_all
  have eff: "case find (forEvent i) (geofences s) of
              None \<Rightarrow> geofences ?s' = geofences s
            | Some g \<Rightarrow>
                \<exists>g'. find (forEvent i) (geofences ?s') = Some g' \<and> doc_id g' = doc_id g \<and>
                  centerOf g' ''latitude'' = Inr lat \<and> centerOf g' ''longitude'' = Inr lng \<and>
                  radiusOf g' = (if truthy (getField body ''geofenceRadius'')
                                 then getField body ''geofenceRadius'' else JNum 500) \<and>
                  levelOf g' = Inr (if truthy (getField body ''trafficImpact'')
                                    then getField body ''trafficImpact'' else JStr ''low'')"
  proof (cases "find (forEvent i) (geofences s)")
    case None
    then show ?thesis by (simp add: updateFirst_none)
  next
    case (Some g)
    then have "forEvent i g" by (auto simp: find_Some_iff)
    then have "forEvent i (?f g)" by (simp add: geofenceChange_effect)
    with Some have "find (forEvent i) (updateFirst (forEvent i) ?f (geofences s)) = Some (?f g)"
      by (rule find_updateFirst)
    then show ?thesis
      using Some by (simp add: geofenceChange_effect doc_id_applySet)
  qed
  from run st eff show ?thesis by blast
qed

theorem updateEvent_geofence_witness:
  "map radiusOf (geofences fairStore) = [JNum 800] \<and>
   map_option radiusOf
     (find (forEvent ''e1'') (geofences (snd (updateEvent acceptAll ''e1'' alice moveBody fairStore))))
     = Some (JNum 500) \<and>
   \<not> isl (fst (updateEvent acceptAll ''e1'' alice moveBody loneStore)) \<and>
   geofences (snd (updateEvent acceptAll ''e1'' alice moveBody loneStore)) = []"
proof -
  have org: "toString acceptAll (organizerOf fairEvent) = Inr ''a1''"
    by (simp add: fairEvent_def organizerOf_def getField_def)
  have auth: "''a1'' = user_id alice \<or> role alice = ''admin''"
    by (simp add: alice_def)
  have valid: "eventUpdateValid acceptAll moveBody"
    by (simp add: acceptAll_def)
  have coords: "truthy (getField moveBody ''coordinates'')"
    by (simp add: moveBody_def getField_def)
  have lat: "member (getField moveBody ''coordinates'') ''latitude'' = Inr (JNum 41)"
    by (simp add: moveBody_def getField_def)
  have lng: "member (getField moveBody ''coordinates'') ''longitude'' = Inr (JNum (-74))"
    by (simp add: moveBody_def getField_def)
  have gvalid: "geofenceUpdateValid acceptAll (geofenceChange moveBody (JNum 41) (JNum (-74)))"
    by (simp add: acceptAll_def)
  have found1: "findById (events fairStore) ''e1'' = Some fairEvent"
    by (simp add: fairStore_def findById_def fairEvent_def)
  have found2: "findById (events loneStore) ''e1'' = Some fairEvent"
    by (simp add: loneStore_def findById_def fairEvent_def)
  have paired: "find (forEvent ''e1'') (geofences fairStore) = Some fairGeofence"
    by (simp add: fairStore_def fairGeofence_def forEvent_def getField_def)
  have none: "find (forEvent ''e1'') (geofences loneStore) = None"
    by (simp add: loneStore_def)
  have r: "getField moveBody ''geofenceRadius'' = JUndefined"
    by (simp add: moveBody_def getField_def)
  from updateEvent_geofence [OF found1 org auth valid coords lat lng gvalid]
  have a: "map_option radiusOf
     (find (forEvent ''e1'') (geofences (snd (updateEvent acceptAll ''e1'' alice moveBody fairStore))))
     = Some (JNum 500)"
    by (auto simp: paired r)
  from updateEvent_geofence [OF found2 org auth valid coords lat lng gvalid]
  have b: "\<not> isl (fst (updateEvent acceptAll ''e1'' alice moveBody loneStore)) \<and>
   geofences (snd (updateEvent acceptAll ''e1'' alice moveBody loneStore)) = []"
    by (auto simp: none) (simp add: loneStore_def)
  have c: "map radiusOf (geofences fairStore) = [JNum 800]"
    by (simp add: fairStore_def fairGeofence_def radiusOf_def getField_def)
  from a b c show ?thesis by simp
qed

text \<open>
  The claim as first stated set the radius to the request's geofenceRadius whenever
  one is supplied, for every Update with coordinates. With new coordinates and a
  supplied radius of 0 the Update succeeds and the radius stored is 500. And an Update
  with coordinates of an Event that has lost its organizer does not reach the Geofence
  at all: the handler reads \<^verbatim>\<open>event.organizer.toString()\<close> before it looks at the
  caller's role, so even an admin gets a TypeError and the store is left as it was.
\<close>

theorem updateEvent_geofence_counterexample:
  "\<not> isl (fst (updateEvent acceptAll ''e1'' alice moveZeroBody fairStore)) \<and>
   getField moveZeroBody ''geofenceRadius'' = JNum 0 \<and>
   map radiusOf (geofences (snd (updateEvent acceptAll ''e1'' alice moveZeroBody fairStore)))
     = [JNum 500] \<and>
   snd (updateEvent acceptAll ''e1'' alice nullBody fairStore) = orphanStore \<and>
   findById (events orphanStore) ''e1'' = Some orphanEvent \<and>
   organizerOf orphanEvent = JNull \<and> role root = ''admin'' \<and>
   updateEvent acceptAll ''e1'' root moveBody orphanStore = (Inl TypeError, orphanStore)"
proof -
  have a: "\<not> isl (fst (updateEvent acceptAll ''e1'' alice moveZeroBody fairStore)) \<and>
   getField moveZeroBody ''geofenceRadius'' = JNum 0 \<and>
   map radiusOf (geofences (snd (updateEvent acceptAll ''e1'' alice moveZeroBody fairStore)))
     = [JNum 500]"
    by (simp add: sample_defs update_defs radiusOf_def)
  have b: "snd (updateEvent acceptAll ''e1'' alice nullBody fairStore) = orphanStore"
    by (simp add: orphan_reached)
  have c: "findById (events orphanStore) ''e1'' = Some orphanEvent \<and>
   organizerOf orphanEvent = JNull \<and> role root = ''admin''"
    by (simp add: orphanStore_def orphanEvent_def findById_def organizerOf_def getField_def
          root_def)
  have d: "updateEvent acceptAll ''e1'' root moveBody orphanStore = (Inl TypeError, orphanStore)"
    by (simp add: updateEvent_def orphanStore_def orphanEvent_def findById_def getField_def)
  from a b c d show ?thesis by simp
qed

section \<open>Update and Delete: NotFound and Forbidden\<close>




section \<open>Delete\<close>




section \<open>The organizer of an Event\<close>

lemma createEvent_events:
  assumes "createEvent ad eid gid usr body s = (r, s')"
  shows "events s' = events s \<or>
         events s' = events s @ [\<lparr>doc_id = eid,
            doc_fields = eventDefaults (setField body ''organizer'' (JStr (user_id usr)))\<rparr>]"
  using assms
  by (auto simp: createEvent_def Event_create_def Geofence_create_def Let_def
      split: if_splits sum.splits prod.splits)

lemma updateEvent_events:
  assumes "updateEvent ad i usr body s = (r, s')"
  shows "events s' = events s \<or>
         events s' = updateFirst (\<lambda>d. doc_id d = i) (applySet ad body) (events s)"
  using assms
  by (auto simp: updateEvent_def Event_findByIdAndUpdate_def Geofence_findOneAndUpdate_def Let_def
      split: if_splits sum.splits prod.splits option.splits)

lemma deleteEvent_events:
  assumes "deleteEvent ad i usr s = (r, s')"
  shows "events s' = events s \<or>
         (\<exists>ev. findById (events s) i = Some ev \<and> events s' = remove1 ev (events s))"
proof (cases "findById (events s) i")
  case None
  with assms show ?thesis by (simp add: deleteEvent_def)
next
  case (Some ev)
  have i: "doc_id ev = i" using Some by (rule findById_id)
  have "deleteFirst (\<lambda>d. doc_id d = i) (events s) = remove1 ev (events s)"
    using Some by (simp add: findById_def deleteFirst_remove1)
  with assms Some show ?thesis
    by (auto simp: deleteEvent_def deleteOne_def Geofence_findOneAndDelete_def Let_def i
        split: if_splits sum.splits)
qed

lemma organizerOf_applySet:
  "plainUpdate body \<Longrightarrow> map_of body ''organizer'' = None \<Longrightarrow>
   organizerOf (applySet ad body d) = organizerOf d"
  by (simp add: organizerOf_def applySet_def getField_merge)

text \<open>
  C3 (as amended). The organizer of an Event is the id of the user who created it when
  Create persists it. An Update whose body is a plain field object without an
  organizer field leaves the ids and the organizers of all Events as they were, and a
  Delete leaves every remaining Event as it was.
\<close>

theorem organizer_kept:
  "(createEvent ad eid gid usr body s = (r1, s1) \<longrightarrow>
      events s1 = events s \<or>
      (\<exists>ev. events s1 = events s @ [ev] \<and> doc_id ev = eid \<and>
            organizerOf ev = JStr (user_id usr))) \<and>
   (updateEvent ad i usr body s = (r2, s2) \<and> plainUpdate body \<and>
    map_of body ''organizer'' = None \<longrightarrow>
      map doc_id (events s2) = map doc_id (events s) \<and>
      map organizerOf (events s2) = map organizerOf (events s)) \<and>
   (deleteEvent ad i usr s = (r3, s3) \<longrightarrow>
      events s3 = events s \<or>
      (\<exists>ev. findById (events s) i = Some ev \<and> events s3 = remove1 ev (events s)))"
proof (intro conjI impI)
  assume "createEvent ad eid gid usr body s = (r1, s1)"
  then have "events s1 = events s \<or>
         events s1 = events s @ [\<lparr>doc_id = eid,
            doc_fields = eventDefaults (setField body ''organizer'' (JStr (user_id usr)))\<rparr>]"
    by (rule createEvent_events)
  moreover have "organizerOf \<lparr>doc_id = eid,
          doc_fields = eventDefaults (setField body ''organizer'' (JStr (user_id usr)))\<rparr>
        = JStr (user_id usr)"
    by (simp add: organizerOf_def getField_eventDefaults getField_setField_same)
  ultimately show "events s1 = events s \<or>
      (\<exists>ev. events s1 = events s @ [ev] \<and> doc_id ev = eid \<and>
            organizerOf ev = JStr (user_id usr))"
    by auto
next
  assume a: "updateEvent ad i usr body s = (r2, s2) \<and> plainUpdate body \<and>
    map_of body ''organizer'' = None"
  then have "events s2 = events s \<or>
         events s2 = updateFirst (\<lambda>d. doc_id d = i) (applySet ad body) (events s)"
    by (auto dest: updateEvent_events)
  moreover have "map doc_id (updateFirst (\<lambda>d. doc_id d = i) (applySet ad body) (events s))
      = map doc_id (events s)"
    by (rule map_updateFirst) (simp add: doc_id_applySet)
  moreover have "map organizerOf (updateFirst (\<lambda>d. doc_id d = i) (applySet ad body) (events s))
      = map organizerOf (events s)"
    using a by (intro map_updateFirst) (simp add: organizerOf_applySet)
  ultimately show "map doc_id (events s2) = map doc_id (events s)"
    and "map organizerOf (events s2) = map organizerOf (events s)"
    by auto
next
  assume "deleteEvent ad i usr s = (r3, s3)"
  then show "events s3 = events s \<or>
      (\<exists>ev. findById (events s) i = Some ev \<and> events s3 = remove1 ev (events s))"
    by (rule deleteEvent_events)
qed

lemma fair_moved:
  "\<exists>r s'. updateEvent acceptAll ''e1'' root moveBody fairStore = (Inr r, s')"
  by (simp add: sample_defs update_defs)

lemma fair_deleted:
  "deleteEvent acceptAll ''e1'' alice fairStore
     = (Inr \<lparr>status = 200, success = True, count = None, data = PEmpty\<rparr>, emptyStore)"
  by (simp add: sample_defs delete_defs)

theorem organizer_kept_witness:
  "map organizerOf (events (snd (createEvent acceptAll ''e1'' ''g1'' alice fairBody emptyStore)))
     = [JStr ''a1''] \<and>
   map organizerOf (events (snd (updateEvent acceptAll ''e1'' root moveBody fairStore)))
     = [JStr ''a1''] \<and>
   events (snd (deleteEvent acceptAll ''e1'' alice fairStore)) = []"
proof -
  obtain r2 s2 where u: "updateEvent acceptAll ''e1'' root moveBody fairStore = (Inr r2, s2)"
    using fair_moved by blast
  have p: "plainUpdate moveBody" "map_of moveBody ''organizer'' = None"
    by (simp_all add: moveBody_def plainUpdate_def plainKey_def)
  have found: "findById (events fairStore) ''e1'' = Some fairEvent"
    by (simp add: fairStore_def fairEvent_def findById_def)
  from organizer_kept [where ad = acceptAll and eid = "''e1''" and gid = "''g1''"
      and usr = alice and body = fairBody and s = emptyStore and ?s1.0 = fairStore
      and ?r1.0 = "Inr \<lparr>status = 201, success = True, count = None, data = PEvent fairEvent\<rparr>"]
    fair_created_store
  have "events fairStore = events emptyStore \<or>
      (\<exists>ev. events fairStore = events emptyStore @ [ev] \<and> doc_id ev = ''e1'' \<and>
            organizerOf ev = JStr (user_id alice))"
    by blast
  then have a: "map organizerOf (events fairStore) = [JStr ''a1'']"
    by (auto simp: fairStore_def emptyStore_def alice_def)
  from organizer_kept [where ad = acceptAll and i = "''e1''" and usr = root
      and body = moveBody and s = fairStore and ?r2.0 = "Inr r2" and ?s2.0 = s2] u p
  have "map organizerOf (events s2) = map organizerOf (events fairStore)"
    by blast
  with a have b: "map organizerOf (events s2) = [JStr ''a1'']"
    by simp
  from organizer_kept [where ad = acceptAll and i = "''e1''" and usr = alice
      and s = fairStore and ?s3.0 = emptyStore
      and ?r3.0 = "Inr \<lparr>status = 200, success = True, count = None, data = PEmpty\<rparr>"]
    fair_deleted
  have "events emptyStore = events fairStore \<or>
      (\<exists>ev. findById (events fairStore) ''e1'' = Some ev \<and>
            events emptyStore = remove1 ev (events fairStore))"
    by blast
  then have c: "events emptyStore = remove1 fairEvent (events fairStore)"
    by (auto simp: found) (simp add: fairStore_def emptyStore_def)
  then have c': "events emptyStore = []"
    by (simp add: fairStore_def)
  from a b c' show ?thesis
    by (simp add: fair_created_store u fair_deleted)
qed

text \<open>
  The claim as first stated had every Update preserve the organizer. An Update by the
  organizer whose body carries another organizer succeeds and stores that value: the
  Event created by \<open>alice\<close> then has organizer \<open>m9\<close>.
\<close>

theorem organizer_kept_counterexample:
  "snd (createEvent acceptAll ''e1'' ''g1'' alice fairBody emptyStore) = fairStore \<and>
   map organizerOf (events fairStore) = [JStr (user_id alice)] \<and>
   \<not> isl (fst (updateEvent acceptAll ''e1'' alice takeoverBody fairStore)) \<and>
   map organizerOf (events (snd (updateEvent acceptAll ''e1'' alice takeoverBody fairStore)))
     = [JStr ''m9'']"
  by (simp add: fair_created_store) (simp add: sample_defs update_defs)

section \<open>Falsy inputs take the defaults\<close>

text \<open>
  C10. The defaults apply to every falsy input, not only to an omitted field. After a
  Create that succeeds, and after an Update that succeeds with truthy coordinates for
  an Event that has a paired Geofence, a falsy geofenceRadius in the request (the
  number 0, say) leaves the Geofence with radius 500, and a falsy trafficImpact (the
  empty string, say) leaves it with trafficImpact.level "low".
\<close>

theorem falsy_defaults:
  "(createEvent ad eid gid usr body s = (Inr r1, s1) \<longrightarrow>
      (\<exists>g. geofences s1 = geofences s @ [g] \<and>
           (\<not> truthy (getField body ''geofenceRadius'') \<longrightarrow> radiusOf g = JNum 500) \<and>
           (\<not> truthy (getField body ''trafficImpact'') \<longrightarrow> levelOf g = Inr (JStr ''low'')))) \<and>
   (updateEvent ad i usr body s = (Inr r2, s2) \<and> truthy (getField body ''coordinates'') \<and>
    find (forEvent i) (geofences s) = Some g0 \<longrightarrow>
      (\<exists>g. find (forEvent i) (geofences s2) = Some g \<and> doc_id g = doc_id g0 \<and>
           (\<not> truthy (getField body ''geofenceRadius'') \<longrightarrow> radiusOf g = JNum 500) \<and>
           (\<not> truthy (getField body ''trafficImpact'') \<longrightarrow> levelOf g = Inr (JStr ''low''))))"
proof (intro conjI impI)
  assume "createEvent ad eid gid usr body s = (Inr r1, s1)"
  from createEvent_success [OF this] obtain lat lng where
    gs: "geofences s1 = geofences s @ [\<lparr>doc_id = gid, doc_fields =
               [(''event'', JStr eid),
                (''radius'', js_or (getField body ''geofenceRadius'') (JNum 500)),
                (''center'', JObj [(''latitude'', lat), (''longitude'', lng)]),
                (''trafficImpact'',
                   JObj [(''level'', js_or (getField body ''trafficImpact'') (JStr ''low'')),
                         (''description'',
                            JStr (''Traffic impact for '' @ template ad (getField body ''title'')))]),
                (''createdBy'', JStr (user_id usr))]\<rparr>]"
      (is "_ = _ @ [?g]")
    by auto
  have "\<not> truthy (getField body ''geofenceRadius'') \<longrightarrow> radiusOf ?g = JNum 500"
    by (simp add: radiusOf_def getField_def js_or_def)
  moreover have "\<not> truthy (getField body ''trafficImpact'') \<longrightarrow> levelOf ?g = Inr (JStr ''low'')"
    by (simp add: levelOf_def getField_def js_or_def)
  ultimately show "\<exists>g. geofences s1 = geofences s @ [g] \<and>
           (\<not> truthy (getField body ''geofenceRadius'') \<longrightarrow> radiusOf g = JNum 500) \<and>
           (\<not> truthy (getField body ''trafficImpact'') \<longrightarrow> levelOf g = Inr (JStr ''low''))"
    using gs by blast
next
  assume a: "updateEvent ad i usr body s = (Inr r2, s2) \<and> truthy (getField body ''coordinates'') \<and>
    find (forEvent i) (geofences s) = Some g0"
  then have run: "updateEvent ad i usr body s = (Inr r2, s2)"
    and coords: "truthy (getField body ''coordinates'')"
    and paired: "find (forEvent i) (geofences s) = Some g0"
    by simp_all
  from updateEvent_success [OF run] coords obtain lat lng where
    gs: "geofences s2 = updateFirst (forEvent i)
            (applySet ad (geofenceChange body lat lng)) (geofences s)"
    by auto
  let ?g = "applySet ad (geofenceChange body lat lng) g0"
  from paired have "forEvent i g0" by (auto simp: find_Some_iff)
  then have "forEvent i ?g" by (simp add: geofenceChange_effect)
  with paired have "find (forEvent i) (geofences s2) = Some ?g"
    unfolding gs by (rule find_updateFirst)
  moreover have "doc_id ?g = doc_id g0"
    by (rule doc_id_applySet)
  moreover have "\<not> truthy (getField body ''geofenceRadius'') \<longrightarrow> radiusOf ?g = JNum 500"
    by (simp add: geofenceChange_effect)
  moreover have "\<not> truthy (getField body ''trafficImpact'') \<longrightarrow> levelOf ?g = Inr (JStr ''low'')"
    by (simp add: geofenceChange_effect)
  ultimately show "\<exists>g. find (forEvent i) (geofences s2) = Some g \<and> doc_id g = doc_id g0 \<and>
           (\<not> truthy (getField body ''geofenceRadius'') \<longrightarrow> radiusOf g = JNum 500) \<and>
           (\<not> truthy (getField body ''trafficImpact'') \<longrightarrow> levelOf g = Inr (JStr ''low''))"
    by blast
qed

lemma zero_created:
  "\<exists>r s'. createEvent acceptAll ''e1'' ''g1'' alice zeroBody emptyStore = (Inr r, s')"
  by (simp add: sample_defs create_defs)

lemma zero_moved:
  "\<exists>r s'. updateEvent acceptAll ''e1'' alice moveZeroBody fairStore = (Inr r, s')"
  by (simp add: sample_defs update_defs)

theorem falsy_defaults_witness:
  "getField zeroBody ''geofenceRadius'' = JNum 0 \<and> getField zeroBody ''trafficImpact'' = JStr [] \<and>
   map radiusOf (geofences (snd (createEvent acceptAll ''e1'' ''g1'' alice zeroBody emptyStore)))
     = [JNum 500] \<and>
   map levelOf (geofences (snd (createEvent acceptAll ''e1'' ''g1'' alice zeroBody emptyStore)))
     = [Inr (JStr ''low'')] \<and>
   getField moveZeroBody ''geofenceRadius'' = JNum 0 \<and>
   getField moveZeroBody ''trafficImpact'' = JStr [] \<and>
   map_option radiusOf (find (forEvent ''e1'')
      (geofences (snd (updateEvent acceptAll ''e1'' alice moveZeroBody fairStore))))
     = Some (JNum 500) \<and>
   map_option levelOf (find (forEvent ''e1'')
      (geofences (snd (updateEvent acceptAll ''e1'' alice moveZeroBody fairStore))))
     = Some (Inr (JStr ''low''))"
proof -
  obtain r1 s1 where c: "createEvent acceptAll ''e1'' ''g1'' alice zeroBody emptyStore = (Inr r1, s1)"
    using zero_created by blast
  obtain r2 s2 where u: "updateEvent acceptAll ''e1'' alice moveZeroBody fairStore = (Inr r2, s2)"
    using zero_moved by blast
  have z: "getField zeroBody ''geofenceRadius'' = JNum 0"
      "getField zeroBody ''trafficImpact'' = JStr []"
    by (simp_all add: zeroBody_def getField_def)
  have m: "getField moveZeroBody ''geofenceRadius'' = JNum 0"
      "getField moveZeroBody ''trafficImpact'' = JStr []"
      "truthy (getField moveZeroBody ''coordinates'')"
    by (simp_all add: moveZeroBody_def getField_def)
  have paired: "find (forEvent ''e1'') (geofences fairStore) = Some fairGeofence"
    by (simp add: fairStore_def fairGeofence_def forEvent_def getField_def)
  from falsy_defaults [where ad = acceptAll and eid = "''e1''" and gid = "''g1''" and usr = alice
      and body = zeroBody and s = emptyStore and ?r1.0 = r1 and ?s1.0 = s1] c
  have "\<exists>g. geofences s1 = geofences emptyStore @ [g] \<and>
           (\<not> truthy (getField zeroBody ''geofenceRadius'') \<longrightarrow> radiusOf g = JNum 500) \<and>
           (\<not> truthy (getField zeroBody ''trafficImpact'') \<longrightarrow> levelOf g = Inr (JStr ''low''))"
    by blast
  then have a: "map radiusOf (geofences s1) = [JNum 500] \<and>
      map levelOf (geofences s1) = [Inr (JStr ''low'')]"
    by (auto simp: z emptyStore_def)
  from falsy_defaults [where ad = acceptAll and i = "''e1''" and usr = alice
      and body = moveZeroBody and s = fairStore and ?r2.0 = r2 and ?s2.0 = s2
      and ?g0.0 = fairGeofence] u m(3) paired
  have "\<exists>g. find (forEvent ''e1'') (geofences s2) = Some g \<and> doc_id g = doc_id fairGeofence \<and>
           (\<not> truthy (getField moveZeroBody ''geofenceRadius'') \<longrightarrow> radiusOf g = JNum 500) \<and>
           (\<not> truthy (getField moveZeroBody ''trafficImpact'') \<longrightarrow> levelOf g = Inr (JStr ''low''))"
    by blast
  then have b: "map_option radiusOf (find (forEvent ''e1'') (geofences s2)) = Some (JNum 500) \<and>
      map_option levelOf (find (forEvent ''e1'') (geofences s2)) = Some (Inr (JStr ''low''))"
    by (auto simp: m)
  from a b z m show ?thesis
    by (simp add: c u)
qed

section \<open>Upcoming events\<close>

lemma getField_populate:
  "k \<noteq> path \<Longrightarrow> getField (doc_fields (populate path sel us d)) k = getField (doc_fields d) k"
  by (simp add: populate_def getField_setField_other split: option.splits jsval.splits)

lemma isUpcoming_date:
  "isUpcoming now d \<Longrightarrow>
   (\<exists>t. getField (doc_fields d) ''date'' = JNum t \<and> now \<le> t) \<and>
   getField (doc_fields d) ''status'' = JStr ''upcoming''"
  by (auto simp: isUpcoming_def split: jsval.splits)

lemma dateOf_populate: "dateOf (populate ''organizer'' sel us d) = dateOf d"
  by (simp add: dateOf_def getField_populate)

text \<open>
  C9. \<open>getUpcomingEvents\<close> answers with at most 10 Events; each of them has a date
  that is not before the time of the query and has status "upcoming"; and they come in
  ascending order of date.
\<close>

theorem getUpcomingEvents_result:
  "\<exists>found.
     getUpcomingEvents now s
       = (Inr \<lparr>status = 200, success = True, count = Some (length found),
               data = PEvents found\<rparr>, s) \<and>
     length found \<le> 10 \<and>
     (\<forall>d \<in> set found.
        (\<exists>t. getField (doc_fields d) ''date'' = JNum t \<and> now \<le> t) \<and>
        getField (doc_fields d) ''status'' = JStr ''upcoming'') \<and>
     sorted (map dateOf found)"
proof -
  let ?pop = "populate ''organizer'' [''name''] (users s)"
  let ?hits = "take 10 (sort_key dateOf (filter (isUpcoming now) (events s)))"
  let ?found = "map ?pop ?hits"
  have run: "getUpcomingEvents now s
       = (Inr \<lparr>status = 200, success = True, count = Some (length ?found),
               data = PEvents ?found\<rparr>, s)"
    by (simp add: getUpcomingEvents_def Let_def)
  have len: "length ?found \<le> 10"
    by simp
  have hits: "\<forall>d \<in> set ?hits. isUpcoming now d"
  proof
    fix d assume "d \<in> set ?hits"
    then have "d \<in> set (sort_key dateOf (filter (isUpcoming now) (events s)))"
      by (rule in_set_takeD)
    then show "isUpcoming now d" by simp
  qed
  have all: "\<forall>d \<in> set ?found.
        (\<exists>t. getField (doc_fields d) ''date'' = JNum t \<and> now \<le> t) \<and>
        getField (doc_fields d) ''status'' = JStr ''upcoming''"
  proof
    fix d assume "d \<in> set ?found"
    then obtain e where e: "e \<in> set ?hits" and d: "d = ?pop e"
      by auto
    from e hits have "isUpcoming now e" by blast
    then have "(\<exists>t. getField (doc_fields e) ''date'' = JNum t \<and> now \<le> t) \<and>
        getField (doc_fields e) ''status'' = JStr ''upcoming''"
      by (rule isUpcoming_date)
    then show "(\<exists>t. getField (doc_fields d) ''date'' = JNum t \<and> now \<le> t) \<and>
        getField (doc_fields d) ''status'' = JStr ''upcoming''"
      by (simp add: d getField_populate)
  qed
  have "map dateOf ?found = take 10 (map dateOf (sort_key dateOf (filter (isUpcoming now) (events s))))"
    by (simp add: take_map dateOf_populate comp_def)
  moreover have "sorted (map dateOf (sort_key dateOf (filter (isUpcoming now) (events s))))"
    by (rule sorted_sort_key)
  ultimately have srt: "sorted (map dateOf ?found)"
    by (simp only: sorted_wrt_take)
  from run len all srt show ?thesis by blast
qed

theorem getUpcomingEvents_result_witness:
  "\<exists>found.
     getUpcomingEvents 80 agendaStore
       = (Inr \<lparr>status = 200, success = True, count = Some 2, data = PEvents found\<rparr>,
          agendaStore) \<and>
     map doc_id found = [''e2'', ''e1''] \<and> map dateOf found = [100, 300] \<and>
     length found \<le> 10 \<and> sorted (map dateOf found)"
proof -
  from getUpcomingEvents_result [of 80 agendaStore] obtain found where
    run: "getUpcomingEvents 80 agendaStore
       = (Inr \<lparr>status = 200, success = True, count = Some (length found),
               data = PEvents found\<rparr>, agendaStore)"
    and len: "length found \<le> 10" and srt: "sorted (map dateOf found)"
    by blast
  have "getUpcomingEvents 80 agendaStore
       = (Inr \<lparr>status = 200, success = True, count = Some 2,
               data = PEvents
                 [\<lparr>doc_id = ''e2'', doc_fields = [(''date'', JNum 100), (''status'', JStr ''upcoming'')]\<rparr>,
                  \<lparr>doc_id = ''e1'', doc_fields = [(''date'', JNum 300), (''status'', JStr ''upcoming'')]\<rparr>]\<rparr>,
          agendaStore)"
    by (simp add: getUpcomingEvents_def agendaStore_def isUpcoming_def dateOf_def getField_def
          populate_def Let_def)
  with run have f: "found =
                 [\<lparr>doc_id = ''e2'', doc_fields = [(''date'', JNum 100), (''status'', JStr ''upcoming'')]\<rparr>,
                  \<lparr>doc_id = ''e1'', doc_fields = [(''date'', JNum 300), (''status'', JStr ''upcoming'')]\<rparr>]"
    by simp
  then have "map doc_id found = [''e2'', ''e1'']" "map dateOf found = [100, 300]" "length found = 2"
    by (simp_all add: dateOf_def getField_def)
  with run len srt show ?thesis by auto
qed

end
